theory Spec2Isabelle
  imports Complex_Main "HOL-Library.Word"
begin

unbundle bit_operations_syntax

section \<open>Navigation state store (navigation\_data.py)\<close>

text \<open>
  Python numbers that arrive as floats (courses, speeds, angles, coordinates) are
  idealised as reals; identifiers are Python ints. The value stored for a waypoint id is
  the dict with keys latitude, longitude and name.
\<close>

record waypoint =
  wp_latitude :: real
  wp_longitude :: real
  wp_name :: string

record navigation_data =
  current_cog :: real
  current_sog :: real
  current_vmg :: real
  true_wind_speed :: real
  true_wind_angle :: real
  apparent_wind_speed :: real
  apparent_wind_angle :: real
  absolute_wind_direction :: real
  current_waypoint :: string
  current_waypoint_id :: int
  current_route_id :: int
  route_waypoints :: "int \<rightharpoonup> waypoint"
  waypoint_sequence :: "int list"

text \<open>
  The fields of \<open>__init__\<close> that no modelled method reads or writes (position, bearing,
  distance, next waypoint, destination, cross-track error, wind shifts) are left out of
  the record.
\<close>

definition navigation_data_init :: navigation_data where
  "navigation_data_init =
     \<lparr>current_cog = 0, current_sog = 0, current_vmg = 0,
      true_wind_speed = 0, true_wind_angle = 0,
      apparent_wind_speed = 0, apparent_wind_angle = 0,
      absolute_wind_direction = 0,
      current_waypoint = ''N/A'', current_waypoint_id = 0,
      current_route_id = 0,
      route_waypoints = Map.empty, waypoint_sequence = []\<rparr>"

text \<open>Python's \<open>x % y\<close> on numbers with \<open>y > 0\<close>: the floored remainder.\<close>

definition py_mod :: "real \<Rightarrow> real \<Rightarrow> real" where
  "py_mod x y = x - y * of_int \<lfloor>x / y\<rfloor>"

text \<open>An argument left at its default \<open>None\<close> is \<open>None\<close>; a supplied one is \<open>Some v\<close>.\<close>

definition patch :: "'a option \<Rightarrow> 'a \<Rightarrow> 'a" where
  "patch new old = (case new of None \<Rightarrow> old | Some v \<Rightarrow> v)"

definition update_navigation ::
  "navigation_data \<Rightarrow> real option \<Rightarrow> real option \<Rightarrow> real option \<Rightarrow> navigation_data" where
  "update_navigation s cog sog vmg =
     s\<lparr>current_cog := patch cog (current_cog s),
       current_sog := patch sog (current_sog s),
       current_vmg := patch vmg (current_vmg s)\<rparr>"

text \<open>
  \<open>update_wind\<close> ends with the recomputation of the absolute wind direction. Its guard
  (both fields not \<open>None\<close>) always holds: the fields start at 0 and are only ever
  overwritten by supplied values.
\<close>

definition update_wind ::
  "navigation_data \<Rightarrow> real option \<Rightarrow> real option \<Rightarrow> real option \<Rightarrow> real option
     \<Rightarrow> navigation_data" where
  "update_wind s true_speed true_angle apparent_speed apparent_angle =
     (let s1 = s\<lparr>true_wind_speed := patch true_speed (true_wind_speed s),
                  true_wind_angle := patch true_angle (true_wind_angle s),
                  apparent_wind_speed := patch apparent_speed (apparent_wind_speed s),
                  apparent_wind_angle := patch apparent_angle (apparent_wind_angle s)\<rparr>
      in s1\<lparr>absolute_wind_direction := py_mod (true_wind_angle s1 + current_cog s1) 360\<rparr>)"

text \<open>Decimal rendering of a Python int, as \<open>str\<close> and f-strings produce it.\<close>

definition digit_char :: "nat \<Rightarrow> char" where
  "digit_char d = char_of (48 + d)"

function str_nat :: "nat \<Rightarrow> string" where
  "str_nat n = (if n < 10 then [digit_char n] else str_nat (n div 10) @ [digit_char (n mod 10)])"
  by pat_completeness auto
termination
  by (relation "measure id") auto

declare str_nat.simps [simp del]

definition str_int :: "int \<Rightarrow> string" where
  "str_int i = (if i < 0 then CHR ''-'' # str_nat (nat (- i)) else str_nat (nat i))"

definition add_route_waypoint ::
  "navigation_data \<Rightarrow> int \<Rightarrow> real \<Rightarrow> real \<Rightarrow> string option \<Rightarrow> navigation_data" where
  "add_route_waypoint s waypoint_id lat lon name =
     (let name1 = (case name of None \<Rightarrow> ''WP'' @ str_int waypoint_id | Some n \<Rightarrow> n);
          s1 = s\<lparr>route_waypoints := (route_waypoints s)(waypoint_id \<mapsto>
                    \<lparr>wp_latitude = lat, wp_longitude = lon, wp_name = name1\<rparr>)\<rparr>
      in if waypoint_id \<notin> set (waypoint_sequence s1)
         then s1\<lparr>waypoint_sequence := waypoint_sequence s1 @ [waypoint_id]\<rparr>
         else s1)"

text \<open>An element of \<open>waypoints_list\<close>: a dict with waypoint\_id, latitude, longitude and
  possibly name (\<open>wp.get('name')\<close> is \<open>None\<close> when the key is missing).\<close>

record waypoint_item =
  item_waypoint_id :: int
  item_latitude :: real
  item_longitude :: real
  item_name :: "string option"

fun add_all :: "navigation_data \<Rightarrow> waypoint_item list \<Rightarrow> navigation_data" where
  "add_all s [] = s"
| "add_all s (wp # wps) =
     add_all (add_route_waypoint s (item_waypoint_id wp) (item_latitude wp)
                (item_longitude wp) (item_name wp)) wps"

definition update_route ::
  "navigation_data \<Rightarrow> int option \<Rightarrow> waypoint_item list option \<Rightarrow> navigation_data" where
  "update_route s route_id waypoints_list =
     (let s1 = s\<lparr>current_route_id := patch route_id (current_route_id s)\<rparr>
      in case waypoints_list of
           None \<Rightarrow> s1
         | Some wps \<Rightarrow> add_all (s1\<lparr>route_waypoints := Map.empty, waypoint_sequence := []\<rparr>) wps)"

text \<open>\<open>list.index\<close>: the position of the first occurrence; \<open>None\<close> stands for the
  \<open>ValueError\<close> it raises when there is none.\<close>

fun index_of :: "'a list \<Rightarrow> 'a \<Rightarrow> nat option" where
  "index_of [] x = None"
| "index_of (y # ys) x = (if y = x then Some 0 else map_option Suc (index_of ys x))"

text \<open>
  \<open>get_next_waypoint_in_route\<close>: the \<open>ValueError\<close> of \<open>index\<close> is caught and the method
  returns \<open>None\<close>; the subscript is guarded by the length test, and the dict is read only
  after the membership test.
\<close>

definition get_next_waypoint_in_route :: "navigation_data \<Rightarrow> waypoint option" where
  "get_next_waypoint_in_route s =
     (case index_of (waypoint_sequence s) (current_waypoint_id s) of
        None \<Rightarrow> None
      | Some current_index \<Rightarrow>
          if current_index + 1 < length (waypoint_sequence s)
          then (let next_wp_id = waypoint_sequence s ! (current_index + 1)
                in case route_waypoints s next_wp_id of
                     Some wp \<Rightarrow> Some wp
                   | None \<Rightarrow> None)
          else None)"

section \<open>Time-windowed averaging (data\_averager.py)\<close>

text \<open>
  A \<open>datetime\<close> is the number of microseconds since the epoch and a \<open>timedelta\<close> a number
  of microseconds, both Python-exact as integers. The clock is not part of the state:
  every call of \<open>datetime.now()\<close> is a parameter of the function that makes it.
\<close>

definition timedelta_minutes :: "int \<Rightarrow> int" where
  "timedelta_minutes m = m * 60000000"

datatype py_error = TypeError | StructError | IndexError

text \<open>
  The dict \<open>self.data\<close> has nine keys that never change: eight channels and
  \<open>'timestamps'\<close>. The channel deques hold the appended numbers. The deque under
  \<open>'timestamps'\<close> holds datetimes, and also a number when \<open>add_data\<close> is called with
  the key \<open>'timestamps'\<close> itself, so its elements are tagged.
\<close>

datatype pyval = Stamp int | Num real

record averager =
  window :: int
  channels :: "string \<rightharpoonup> real list"
  timestamps :: "pyval list"

definition channel_names :: "string list" where
  "channel_names =
     [''vmg'', ''cog'', ''sog'', ''true_wind_speed'', ''true_wind_angle'',
      ''apparent_wind_speed'', ''apparent_wind_angle'', ''absolute_wind_direction'']"

definition data_averager_init :: "int \<Rightarrow> averager" where
  "data_averager_init window_minutes =
     \<lparr>window = timedelta_minutes window_minutes,
      channels = map_of (map (\<lambda>k. (k, [])) channel_names),
      timestamps = []\<rparr>"

text \<open>The inner \<open>for\<close> of \<open>_cleanup_old_data\<close>: one \<open>popleft\<close> on every non-empty
  channel deque.\<close>

definition pop_channels :: "(string \<rightharpoonup> real list) \<Rightarrow> (string \<rightharpoonup> real list)" where
  "pop_channels ch =
     (\<lambda>key. case ch key of
               None \<Rightarrow> None
             | Some d \<Rightarrow> if d \<noteq> [] then Some (tl d) else Some d)"

text \<open>
  The \<open>while\<close> of \<open>_cleanup_old_data\<close>, on the timestamp deque and the channels. Comparing
  a number with a datetime raises \<open>TypeError\<close>; the first component reports it, the
  other two are the deques as the loop leaves them.
\<close>

fun cleanup_loop ::
  "int \<Rightarrow> pyval list \<Rightarrow> (string \<rightharpoonup> real list)
     \<Rightarrow> py_error option \<times> pyval list \<times> (string \<rightharpoonup> real list)" where
  "cleanup_loop cutoff [] ch = (None, [], ch)"
| "cleanup_loop cutoff (Num v # ts) ch = (Some TypeError, Num v # ts, ch)"
| "cleanup_loop cutoff (Stamp t # ts) ch =
     (if t < cutoff then cleanup_loop cutoff ts (pop_channels ch)
      else (None, Stamp t # ts, ch))"

text \<open>A method that mutates the averager returns \<open>Inr\<close> the new state, or \<open>Inl\<close> the
  exception together with the state at the moment it was raised.\<close>

definition cleanup_old_data :: "int \<Rightarrow> averager \<Rightarrow> (py_error \<times> averager) + averager" where
  "cleanup_old_data now s =
     (let cutoff = now - window s
      in case cleanup_loop cutoff (timestamps s) (channels s) of
           (None, ts, ch) \<Rightarrow> Inr (s\<lparr>channels := ch, timestamps := ts\<rparr>)
         | (Some e, ts, ch) \<Rightarrow> Inl (e, s\<lparr>channels := ch, timestamps := ts\<rparr>))"

text \<open>
  \<open>add_data s now0 now1 data_type val timestamp\<close>: \<open>now0\<close> is the clock read for a
  missing timestamp, \<open>now1\<close> the later one read by the cleanup. For the key
  \<open>'timestamps'\<close> both appends go to the same deque.
\<close>

definition add_data ::
  "averager \<Rightarrow> int \<Rightarrow> int \<Rightarrow> string \<Rightarrow> real \<Rightarrow> int option \<Rightarrow> (py_error \<times> averager) + averager" where
  "add_data s now0 now1 data_type val timestamp =
     (let ts = (case timestamp of None \<Rightarrow> now0 | Some t \<Rightarrow> t)
      in if data_type = ''timestamps''
         then cleanup_old_data now1 (s\<lparr>timestamps := timestamps s @ [Num val, Stamp ts]\<rparr>)
         else case channels s data_type of
                None \<Rightarrow> Inr s
              | Some d \<Rightarrow>
                  cleanup_old_data now1
                    (s\<lparr>channels := (channels s)(data_type \<mapsto> d @ [val]),
                       timestamps := timestamps s @ [Stamp ts]\<rparr>))"

text \<open>\<open>sum\<close> over the timestamp deque: adding a datetime to a number raises.\<close>

fun py_sum :: "pyval list \<Rightarrow> real \<Rightarrow> py_error + real" where
  "py_sum [] acc = Inr acc"
| "py_sum (Num v # xs) acc = py_sum xs (acc + v)"
| "py_sum (Stamp t # xs) acc = Inl TypeError"

definition get_average :: "averager \<Rightarrow> string \<Rightarrow> py_error + real" where
  "get_average s data_type =
     (if data_type = ''timestamps''
      then (if timestamps s \<noteq> []
            then (case py_sum (timestamps s) 0 of
                    Inl e \<Rightarrow> Inl e
                  | Inr sm \<Rightarrow> Inr (sm / real (length (timestamps s))))
            else Inr 0)
      else case channels s data_type of
             None \<Rightarrow> Inr 0
           | Some d \<Rightarrow> if d \<noteq> [] then Inr (sum_list d / real (length d)) else Inr 0)"

text \<open>The selection loop of \<open>get_wind_shift\<close>: the \<open>i\<close>-th timestamp of the shared deque
  selects the \<open>i\<close>-th wind direction.\<close>

fun select_wind :: "int \<Rightarrow> real list \<Rightarrow> nat \<Rightarrow> pyval list \<Rightarrow> py_error + real list" where
  "select_wind cutoff wind i [] = Inr []"
| "select_wind cutoff wind i (Num v # ts) = Inl TypeError"
| "select_wind cutoff wind i (Stamp t # ts) =
     (case select_wind cutoff wind (i + 1) ts of
        Inl e \<Rightarrow> Inl e
      | Inr rest \<Rightarrow>
          if t \<ge> cutoff \<and> i < length wind then Inr (wind ! i # rest) else Inr rest)"

definition normalize_diff :: "real \<Rightarrow> real" where
  "normalize_diff diff =
     (if diff > 180 then diff - 360 else if diff < - 180 then diff + 360 else diff)"

definition get_wind_shift :: "averager \<Rightarrow> int \<Rightarrow> int \<Rightarrow> py_error + real" where
  "get_wind_shift s now minutes =
     (case channels s ''absolute_wind_direction'' of
        None \<Rightarrow> Inr 0
      | Some wind \<Rightarrow>
          if wind = [] then Inr 0
          else (case select_wind (now - timedelta_minutes minutes) wind 0 (timestamps s) of
                  Inl e \<Rightarrow> Inl e
                | Inr wind_values \<Rightarrow>
                    if length wind_values < 2 then Inr 0
                    else Inr (normalize_diff (last wind_values - hd wind_values))))"

definition get_data_count :: "averager \<Rightarrow> nat" where
  "get_data_count s = length (timestamps s)"

section \<open>Message decoding (nmea200\_parser.py)\<close>

type_synonym byte = "8 word"

text \<open>A slice \<open>data[a:b]\<close> with \<open>0 \<le> a \<le> b\<close>: it never raises, and is shorter than
  \<open>b - a\<close> when the data ends early.\<close>

definition py_slice :: "'a list \<Rightarrow> nat \<Rightarrow> nat \<Rightarrow> 'a list" where
  "py_slice xs a b = take (b - a) (drop a xs)"

fun le_nat :: "byte list \<Rightarrow> nat" where
  "le_nat [] = 0"
| "le_nat (b # bs) = unat b + 256 * le_nat bs"

text \<open>\<open>struct.unpack\<close> raises \<open>struct.error\<close> unless the buffer has exactly the size of
  the format: \<open><H\<close> two bytes, \<open><I\<close>, \<open><i\<close> and \<open>>I\<close> four.\<close>

definition unpack_H :: "byte list \<Rightarrow> py_error + nat" where
  "unpack_H bs = (if length bs = 2 then Inr (le_nat bs) else Inl StructError)"

definition unpack_I :: "byte list \<Rightarrow> py_error + nat" where
  "unpack_I bs = (if length bs = 4 then Inr (le_nat bs) else Inl StructError)"

text \<open>The value of a 32-bit two's complement pattern.\<close>

definition signed32 :: "nat \<Rightarrow> int" where
  "signed32 n = (if n \<ge> 2 ^ 31 then int n - 2 ^ 32 else int n)"

definition unpack_i :: "byte list \<Rightarrow> py_error + int" where
  "unpack_i bs = (if length bs = 4 then Inr (signed32 (le_nat bs)) else Inl StructError)"

definition unpack_I_be :: "byte list \<Rightarrow> py_error + nat" where
  "unpack_I_be bs = (if length bs = 4 then Inr (le_nat (rev bs)) else Inl StructError)"

definition byte_at :: "byte list \<Rightarrow> nat \<Rightarrow> py_error + byte" where
  "byte_at bs i = (if i < length bs then Inr (bs ! i) else Inl IndexError)"

text \<open>Sequencing of statements that may raise.\<close>

definition bind_exn :: "py_error + 'a \<Rightarrow> ('a \<Rightarrow> py_error + 'b) \<Rightarrow> py_error + 'b" where
  "bind_exn m f = (case m of Inl e \<Rightarrow> Inl e | Inr v \<Rightarrow> f v)"

text \<open>\<open>bytes.hex()\<close>: two lower-case hexadecimal digits per byte.\<close>

definition hex_digit :: "nat \<Rightarrow> char" where
  "hex_digit d = ''0123456789abcdef'' ! d"

definition hex_byte :: "byte \<Rightarrow> string" where
  "hex_byte b = [hex_digit (unat b div 16), hex_digit (unat b mod 16)]"

definition hex :: "byte list \<Rightarrow> string" where
  "hex bs = concat (map hex_byte bs)"

text \<open>\<open>bs.decode('ascii', errors='ignore')\<close>: bytes above 127 are dropped; it never
  raises.\<close>

definition decode_ascii_ignore :: "byte list \<Rightarrow> string" where
  "decode_ascii_ignore bs = map (\<lambda>b. char_of (unat b)) (filter (\<lambda>b. unat b < 128) bs)"

text \<open>\<open>bs.find(b'\x00')\<close>: the first position of a zero byte, or \<open>-1\<close>.\<close>

definition find_null :: "byte list \<Rightarrow> int" where
  "find_null bs = (case index_of bs 0 of None \<Rightarrow> - 1 | Some i \<Rightarrow> int i)"

record db_waypoint =
  dbw_waypoint_id :: nat
  dbw_latitude :: real
  dbw_longitude :: real
  dbw_name :: string

text \<open>
  The dicts returned by the parsers, one constructor per shape, the arguments in the
  order of the keys after \<open>type\<close>: \<open>Position latitude longitude\<close>,
  \<open>Navigation cog sog\<close>, \<open>Wind speed angle reference\<close>,
  \<open>WaypointNav bearing_to_waypoint distance_to_waypoint\<close>,
  \<open>WaypointInfo waypoint_id name\<close>, \<open>CrossTrackError xte xte_mode nav_terminated\<close>,
  \<open>NavigationRouteInfo route_id waypoint_id distance bearing destination_latitude
  destination_longitude\<close> (the last key may be missing),
  \<open>WaypointList raw_data length\<close>,
  \<open>RouteWaypointDatabase database_id route_id nav_direction supplementary_route
  waypoints\<close>; \<open>Unparsed pgn raw\<close> is the dict without a type, \<open>ParseError e\<close> the dict
  with the key \<open>error\<close>.
\<close>

datatype message =
    Position real real
  | Navigation real real
  | Wind real real string
  | WaypointNav real real
  | WaypointInfo nat string
  | CrossTrackError real nat bool
  | NavigationRouteInfo nat nat real real real "real option"
  | WaypointList string nat
  | RouteWaypointDatabase nat nat nat bool "db_waypoint list"
  | Unparsed nat string
  | ParseError py_error

text \<open>A parser returns \<open>Inr None\<close> for Python's \<open>None\<close>, \<open>Inr (Some m)\<close> for a dict and
  \<open>Inl e\<close> when it raises.\<close>

definition rad_to_deg :: "nat \<Rightarrow> real" where
  "rad_to_deg n = real n * (1 / 10000) * 180 / pi"

definition parse_position_rapid_update :: "byte list \<Rightarrow> py_error + message option" where
  "parse_position_rapid_update dat =
     (if length dat < 8 then Inr None
      else bind_exn (unpack_i (py_slice dat 0 4)) (\<lambda>lat.
           bind_exn (unpack_i (py_slice dat 4 8)) (\<lambda>lon.
           Inr (Some (Position (real_of_int lat * (1 / 10 ^ 7))
                               (real_of_int lon * (1 / 10 ^ 7)))))))"

definition parse_cog_sog_rapid_update :: "byte list \<Rightarrow> py_error + message option" where
  "parse_cog_sog_rapid_update dat =
     (if length dat < 8 then Inr None
      else bind_exn (unpack_H (py_slice dat 2 4)) (\<lambda>cog.
           bind_exn (unpack_H (py_slice dat 4 6)) (\<lambda>sog.
           Inr (Some (Navigation (rad_to_deg cog) (real sog * (1 / 100)))))))"

definition parse_wind_data :: "byte list \<Rightarrow> py_error + message option" where
  "parse_wind_data dat =
     (if length dat < 6 then Inr None
      else bind_exn (unpack_H (py_slice dat 0 2)) (\<lambda>wind_speed.
           bind_exn (unpack_H (py_slice dat 2 4)) (\<lambda>wind_angle.
           bind_exn (byte_at dat 4) (\<lambda>b4.
           let reference = unat (b4 AND 0x07);
               wind_type = (if reference = 2 then ''apparent'' else ''true'')
           in Inr (Some (Wind (real wind_speed * (1 / 100)) (rad_to_deg wind_angle)
                           wind_type))))))"

definition parse_navigation_data :: "byte list \<Rightarrow> py_error + message option" where
  "parse_navigation_data dat =
     (if length dat < 8 then Inr None
      else bind_exn (unpack_H (py_slice dat 4 6)) (\<lambda>bearing.
           bind_exn (unpack_I (py_slice dat 0 4)) (\<lambda>distance.
           Inr (Some (WaypointNav (rad_to_deg bearing) (real distance * (1 / 100)))))))"

definition parse_route_waypoint_info :: "byte list \<Rightarrow> py_error + message option" where
  "parse_route_waypoint_info dat =
     (if length dat < 8 then Inr None
      else bind_exn (unpack_H (py_slice dat 0 2)) (\<lambda>waypoint_id.
           let waypoint_name =
                 (if length dat > 8
                  then (let name_data = drop 8 dat; null_pos = find_null name_data
                        in if null_pos > 0
                           then decode_ascii_ignore (take (nat null_pos) name_data)
                           else ''WP'' @ str_nat waypoint_id)
                  else ''WP'' @ str_nat waypoint_id)
           in Inr (Some (WaypointInfo waypoint_id waypoint_name))))"

definition parse_cross_track_error :: "byte list \<Rightarrow> py_error + message option" where
  "parse_cross_track_error dat =
     (if length dat < 6 then Inr None
      else bind_exn (byte_at dat 0) (\<lambda>b0.
           bind_exn (unpack_i (py_slice dat 1 5)) (\<lambda>xte.
           Inr (Some (CrossTrackError (real_of_int xte * (1 / 100)) (unat (b0 AND 0x0F))
                        ((b0 AND 0x40) \<noteq> 0))))))"

definition parse_navigation_route_info :: "byte list \<Rightarrow> py_error + message option" where
  "parse_navigation_route_info dat =
     (if length dat < 16 then Inr None
      else bind_exn (unpack_H (py_slice dat 0 2)) (\<lambda>route_id.
           bind_exn (unpack_H (py_slice dat 2 4)) (\<lambda>waypoint_id.
           bind_exn (unpack_I (py_slice dat 4 8)) (\<lambda>distance.
           bind_exn (unpack_H (py_slice dat 8 10)) (\<lambda>bearing.
           bind_exn (unpack_i (py_slice dat 10 14)) (\<lambda>dest_lat.
           bind_exn (if length dat \<ge> 18
                     then bind_exn (unpack_i (py_slice dat 14 18))
                            (\<lambda>v. Inr (Some (real_of_int v * (1 / 10 ^ 7))))
                     else Inr None) (\<lambda>dest_longitude.
           Inr (Some (NavigationRouteInfo route_id waypoint_id (real distance * (1 / 100))
                        (rad_to_deg bearing) (real_of_int dest_lat * (1 / 10 ^ 7))
                        dest_longitude)))))))))"

definition parse_waypoint_list :: "byte list \<Rightarrow> py_error + message option" where
  "parse_waypoint_list dat =
     (if length dat < 8 then Inr None
      else Inr (Some (WaypointList (hex dat) (length dat))))"

text \<open>One pass of the body of the \<open>while\<close> in \<open>parse_route_waypoint_database\<close>: the
  three unpacks and the new list element.\<close>

definition read_waypoint :: "byte list \<Rightarrow> nat \<Rightarrow> py_error + db_waypoint" where
  "read_waypoint dat offset =
     bind_exn (unpack_H (py_slice dat offset (offset + 2))) (\<lambda>waypoint_id.
     bind_exn (unpack_i (py_slice dat (offset + 2) (offset + 6))) (\<lambda>lat.
     bind_exn (unpack_i (py_slice dat (offset + 6) (offset + 10))) (\<lambda>lon.
     Inr \<lparr>dbw_waypoint_id = waypoint_id,
          dbw_latitude = real_of_int lat * (1 / 10 ^ 7),
          dbw_longitude = real_of_int lon * (1 / 10 ^ 7),
          dbw_name = ''WP'' @ str_nat waypoint_id\<rparr>)))"

text \<open>The \<open>while\<close> itself; the bare \<open>except\<close> leaves the loop with the waypoints read
  so far.\<close>

function waypoint_loop :: "byte list \<Rightarrow> nat \<Rightarrow> db_waypoint list \<Rightarrow> db_waypoint list" where
  "waypoint_loop dat offset waypoints =
     (if offset + 16 \<le> length dat
      then (case read_waypoint dat offset of
              Inl e \<Rightarrow> waypoints
            | Inr w \<Rightarrow> waypoint_loop dat (offset + 16) (waypoints @ [w]))
      else waypoints)"
  by pat_completeness auto
termination
  by (relation "measure (\<lambda>(dat, offset, waypoints). length dat - offset)") auto

declare waypoint_loop.simps [simp del]

definition parse_route_waypoint_database :: "byte list \<Rightarrow> py_error + message option" where
  "parse_route_waypoint_database dat =
     (if length dat < 8 then Inr None
      else bind_exn (unpack_H (py_slice dat 0 2)) (\<lambda>database_id.
           bind_exn (unpack_H (py_slice dat 2 4)) (\<lambda>route_id.
           bind_exn (byte_at dat 4) (\<lambda>b4.
           Inr (Some (RouteWaypointDatabase database_id route_id (unat (b4 AND 0x07))
                        ((b4 AND 0x08) \<noteq> 0) (waypoint_loop dat 8 [])))))))"

text \<open>The dispatch table \<open>pgn_parsers\<close>.\<close>

definition pgn_parsers :: "nat \<rightharpoonup> (byte list \<Rightarrow> py_error + message option)" where
  "pgn_parsers =
     map_of [(129025, parse_position_rapid_update),
             (129026, parse_cog_sog_rapid_update),
             (130306, parse_wind_data),
             (129284, parse_navigation_data),
             (129285, parse_route_waypoint_info),
             (129283, parse_cross_track_error),
             (129281, parse_navigation_route_info),
             (129540, parse_waypoint_list),
             (130074, parse_route_waypoint_database)]"

text \<open>The selector of a record: bits 8 to 24 of the big-endian integer in its first
  four bytes.\<close>

definition pgn_of :: "nat \<Rightarrow> nat" where
  "pgn_of can_id = drop_bit 8 can_id AND 0x1FFFF"

text \<open>\<open>parse_message\<close>: any exception raised inside the \<open>try\<close> becomes the error dict.\<close>

definition parse_message :: "byte list \<Rightarrow> message option" where
  "parse_message raw_data =
     (case (if length raw_data < 8 then Inr None
            else bind_exn (unpack_I_be (py_slice raw_data 0 4)) (\<lambda>can_id.
                 let pgn = pgn_of can_id; dat = drop 8 raw_data
                 in case pgn_parsers pgn of
                      Some parser \<Rightarrow> parser dat
                    | None \<Rightarrow> Inr (Some (Unparsed pgn (hex raw_data))))) of
        Inl e \<Rightarrow> Some (ParseError e)
      | Inr r \<Rightarrow> r)"

section \<open>Notions used to state the properties\<close>

subsection \<open>Routes\<close>

text \<open>The invariant of the route of the specification: the sequence holds each id once,
  and every id of the sequence has a waypoint stored.\<close>

definition route_inv :: "navigation_data \<Rightarrow> bool" where
  "route_inv s \<longleftrightarrow>
     distinct (waypoint_sequence s) \<and> set (waypoint_sequence s) \<subseteq> dom (route_waypoints s)"

subsection \<open>Sequences of appends\<close>

text \<open>One call \<open>add_data(data_type, value, timestamp)\<close> together with the two clock
  readings it makes. A run of calls starts from a fresh averager and stops at the first
  exception, as the caller would.\<close>

record append_call =
  call_data_type :: string
  call_value :: real
  call_timestamp :: "int option"
  call_now0 :: int
  call_now1 :: int

definition call_stamp :: "append_call \<Rightarrow> int" where
  "call_stamp a = (case call_timestamp a of None \<Rightarrow> call_now0 a | Some t \<Rightarrow> t)"

fun add_data_calls :: "averager \<Rightarrow> append_call list \<Rightarrow> (py_error \<times> averager) + averager" where
  "add_data_calls s [] = Inr s"
| "add_data_calls s (a # as) =
     (case add_data s (call_now0 a) (call_now1 a) (call_data_type a) (call_value a)
             (call_timestamp a) of
        Inl e \<Rightarrow> Inl e
      | Inr s' \<Rightarrow> add_data_calls s' as)"


definition wind_shift_after :: "int \<Rightarrow> append_call list \<Rightarrow> int \<Rightarrow> int \<Rightarrow> py_error + real" where
  "wind_shift_after window_minutes calls now minutes =
     (case add_data_calls (data_averager_init window_minutes) calls of
        Inl (e, s) \<Rightarrow> Inl e
      | Inr s \<Rightarrow> get_wind_shift s now minutes)"

text \<open>The samples appended to a channel, each with its timestamp, in the order of the
  calls.\<close>

definition samples_of :: "string \<Rightarrow> append_call list \<Rightarrow> (real \<times> int) list" where
  "samples_of c calls =
     map (\<lambda>a. (call_value a, call_stamp a)) (filter (\<lambda>a. call_data_type a = c) calls)"



text \<open>The specification's wind shift: over the wind-direction samples with timestamp at
  least now minus the minutes, newest minus oldest, normalised; 0 with fewer than two.\<close>

definition window_shift :: "(real \<times> int) list \<Rightarrow> int \<Rightarrow> int \<Rightarrow> real" where
  "window_shift samples now minutes =
     (let vs = map fst (filter (\<lambda>p. snd p \<ge> now - timedelta_minutes minutes) samples)
      in if length vs < 2 then 0 else normalize_diff (last vs - hd vs))"



subsection \<open>Records\<close>

text \<open>The selector that \<open>parse_message\<close> computes from a record of at least eight
  bytes, and the minimum payload length that the parser of each known selector tests.\<close>

definition record_pgn :: "byte list \<Rightarrow> nat" where
  "record_pgn raw_data = pgn_of (le_nat (rev (py_slice raw_data 0 4)))"

definition min_length :: "nat \<Rightarrow> nat" where
  "min_length pgn =
     (if pgn = 130306 \<or> pgn = 129283 then 6 else if pgn = 129281 then 16 else 8)"

text \<open>The waypoint name of the specification: the ASCII text from offset 8 up to a
  terminator or the end of the payload, and \<open>WP<id>\<close> when there is no text.\<close>

definition spec_waypoint_name :: "byte list \<Rightarrow> nat \<Rightarrow> string" where
  "spec_waypoint_name dat waypoint_id =
     (let text = decode_ascii_ignore (takeWhile (\<lambda>b. b \<noteq> 0) (drop 8 dat))
      in if text = [] then ''WP'' @ str_nat waypoint_id else text)"

text \<open>The waypoint that a 16-byte record encodes: a 16-bit id, then latitude and
  longitude as signed 32-bit integers scaled by 1e-7; the last six bytes are padding.\<close>

definition waypoint_record :: "byte list \<Rightarrow> db_waypoint" where
  "waypoint_record r =
     \<lparr>dbw_waypoint_id = le_nat (py_slice r 0 2),
      dbw_latitude = real_of_int (signed32 (le_nat (py_slice r 2 6))) * (1 / 10 ^ 7),
      dbw_longitude = real_of_int (signed32 (le_nat (py_slice r 6 10))) * (1 / 10 ^ 7),
      dbw_name = ''WP'' @ str_nat (le_nat (py_slice r 0 2))\<rparr>"

section \<open>Properties of the navigation state store\<close>

lemma index_of_None_iff: "index_of xs x = None \<longleftrightarrow> x \<notin> set xs"
  by (induction xs) auto

lemma index_of_nth: "distinct xs \<Longrightarrow> i < length xs \<Longrightarrow> index_of xs (xs ! i) = Some i"
proof (induction xs arbitrary: i)
  case Nil
  then show ?case by simp
next
  case (Cons y ys)
  show ?case
  proof (cases i)
    case 0
    then show ?thesis by simp
  next
    case (Suc j)
    with Cons.prems have "ys ! j \<in> set ys" "y \<notin> set ys" "j < length ys" "distinct ys"
      by auto
    with Cons.IH [of j] Suc show ?thesis by auto
  qed
qed

lemma index_of_first:
  "x \<notin> set xs \<Longrightarrow> index_of (xs @ x # ys) x = Some (length xs)"
  by (induction xs) auto

text \<open>The route invariant holds initially and every method that is modelled keeps it,
  so it holds in every state that the methods can produce.\<close>

lemma route_inv_init: "route_inv navigation_data_init"
  by (simp add: route_inv_def navigation_data_init_def)

lemma route_inv_add_route_waypoint:
  "route_inv s \<Longrightarrow> route_inv (add_route_waypoint s w lat lon name)"
  by (auto simp: route_inv_def add_route_waypoint_def Let_def)

lemma route_inv_add_all: "route_inv s \<Longrightarrow> route_inv (add_all s wps)"
  by (induction wps arbitrary: s) (simp_all add: route_inv_add_route_waypoint)

lemma route_inv_update_route:
  assumes "route_inv s"
  shows "route_inv (update_route s rid wl)"
proof (cases wl)
  case None
  with assms show ?thesis by (simp add: update_route_def Let_def route_inv_def)
next
  case (Some wps)
  have "route_inv (s\<lparr>current_route_id := patch rid (current_route_id s),
                    route_waypoints := Map.empty, waypoint_sequence := []\<rparr>)"
    by (simp add: route_inv_def)
  then show ?thesis
    using Some by (simp add: update_route_def Let_def route_inv_add_all)
qed

lemma route_inv_update_navigation: "route_inv s \<Longrightarrow> route_inv (update_navigation s c sg v)"
  by (simp add: route_inv_def update_navigation_def)

lemma route_inv_update_wind: "route_inv s \<Longrightarrow> route_inv (update_wind s a b c d)"
  by (simp add: route_inv_def update_wind_def Let_def)

lemma distinct_count_list_one: "distinct xs \<Longrightarrow> x \<in> set xs \<Longrightarrow> count_list xs x = 1"
  by (induction xs) auto

text \<open>C1, as the code has it: \<open>update_wind\<close> always leaves the absolute wind direction
  equal to (true wind angle + course) mod 360 of the stored values; \<open>update_navigation\<close>
  never changes the absolute wind direction; and a wind update that follows a course
  update, without a new angle, computes it from the new course and the prior angle.\<close>

theorem update_wind_recomputes_direction:
  "absolute_wind_direction (update_wind s ts ta asp aa) =
     py_mod (true_wind_angle (update_wind s ts ta asp aa)
             + current_cog (update_wind s ts ta asp aa)) 360
   \<and> absolute_wind_direction (update_navigation s cog sog vmg) = absolute_wind_direction s
   \<and> absolute_wind_direction
       (update_wind (update_navigation s (Some c) sog vmg) ts None asp aa) =
     py_mod (true_wind_angle s + c) 360"
  by (simp add: update_wind_def update_navigation_def Let_def patch_def)

text \<open>C1 as stated fails: after a wind update with angle 10 and then a course update to
  20, the stored direction is still 10, not (10 + 20) mod 360.\<close>

theorem course_update_leaves_direction_stale:
  "absolute_wind_direction
     (update_navigation (update_wind navigation_data_init None (Some 10) None None)
        (Some 20) None None)
   \<noteq> py_mod (true_wind_angle
               (update_navigation (update_wind navigation_data_init None (Some 10) None None)
                  (Some 20) None None)
             + current_cog
               (update_navigation (update_wind navigation_data_init None (Some 10) None None)
                  (Some 20) None None)) 360"
  by (simp add: update_wind_def update_navigation_def Let_def patch_def py_mod_def
      navigation_data_init_def)

text \<open>C8: in a state that satisfies the route invariant, \<open>get_next_waypoint_in_route\<close>
  returns \<open>None\<close> when the current id is not in the sequence or is its last entry, and
  otherwise the waypoint stored for the id that follows the current one. It has no
  exceptional result.\<close>

theorem get_next_waypoint_in_route_result:
  assumes "route_inv s"
  shows "(current_waypoint_id s \<notin> set (waypoint_sequence s)
            \<longrightarrow> get_next_waypoint_in_route s = None)
       \<and> (waypoint_sequence s \<noteq> [] \<and> last (waypoint_sequence s) = current_waypoint_id s
            \<longrightarrow> get_next_waypoint_in_route s = None)
       \<and> (Suc i < length (waypoint_sequence s)
            \<and> waypoint_sequence s ! i = current_waypoint_id s
            \<longrightarrow> get_next_waypoint_in_route s
                  = route_waypoints s (waypoint_sequence s ! Suc i)
                \<and> get_next_waypoint_in_route s \<noteq> None)"
proof (intro conjI impI)
  assume "current_waypoint_id s \<notin> set (waypoint_sequence s)"
  then have "index_of (waypoint_sequence s) (current_waypoint_id s) = None"
    by (simp add: index_of_None_iff)
  then show "get_next_waypoint_in_route s = None"
    by (simp add: get_next_waypoint_in_route_def)
next
  assume a: "waypoint_sequence s \<noteq> [] \<and> last (waypoint_sequence s) = current_waypoint_id s"
  let ?xs = "waypoint_sequence s"
  from a have "?xs ! (length ?xs - 1) = current_waypoint_id s"
    using last_conv_nth [of ?xs] by simp
  moreover from a assms have "index_of ?xs (?xs ! (length ?xs - 1)) = Some (length ?xs - 1)"
    by (intro index_of_nth) (auto simp: route_inv_def)
  ultimately have "index_of ?xs (current_waypoint_id s) = Some (length ?xs - 1)"
    by simp
  with a show "get_next_waypoint_in_route s = None"
    by (simp add: get_next_waypoint_in_route_def)
next
  assume a: "Suc i < length (waypoint_sequence s)
               \<and> waypoint_sequence s ! i = current_waypoint_id s"
  let ?xs = "waypoint_sequence s"
  from a assms have "index_of ?xs (?xs ! i) = Some i"
    by (intro index_of_nth) (auto simp: route_inv_def)
  with a have idx: "index_of ?xs (current_waypoint_id s) = Some i"
    by simp
  from a have "?xs ! Suc i \<in> set ?xs"
    by simp
  with assms have "?xs ! Suc i \<in> dom (route_waypoints s)"
    unfolding route_inv_def by blast
  then obtain w where w: "route_waypoints s (?xs ! Suc i) = Some w"
    by auto
  with idx a show "get_next_waypoint_in_route s = route_waypoints s (?xs ! Suc i)"
    by (simp add: get_next_waypoint_in_route_def)
  with w show "get_next_waypoint_in_route s \<noteq> None"
    by simp
qed

text \<open>C8 on the route 1, 2: with the current id 0 (absent) and 2 (last) the result is
  \<open>None\<close>, with the current id 1 it is the waypoint 2.\<close>

theorem get_next_waypoint_in_route_result_witness:
  "route_inv (add_route_waypoint (add_route_waypoint navigation_data_init 1 10 20 None)
                2 30 40 (Some ''B''))
   \<and> get_next_waypoint_in_route
       (add_route_waypoint (add_route_waypoint navigation_data_init 1 10 20 None)
          2 30 40 (Some ''B'')) = None
   \<and> get_next_waypoint_in_route
       ((add_route_waypoint (add_route_waypoint navigation_data_init 1 10 20 None)
          2 30 40 (Some ''B''))\<lparr>current_waypoint_id := 2\<rparr>) = None
   \<and> get_next_waypoint_in_route
       ((add_route_waypoint (add_route_waypoint navigation_data_init 1 10 20 None)
          2 30 40 (Some ''B''))\<lparr>current_waypoint_id := 1\<rparr>)
       = Some \<lparr>wp_latitude = 30, wp_longitude = 40, wp_name = ''B''\<rparr>"
  using get_next_waypoint_in_route_result
      [of "add_route_waypoint (add_route_waypoint navigation_data_init 1 10 20 None)
             2 30 40 (Some ''B'')" 0]
    get_next_waypoint_in_route_result
      [of "(add_route_waypoint (add_route_waypoint navigation_data_init 1 10 20 None)
             2 30 40 (Some ''B''))\<lparr>current_waypoint_id := 2\<rparr>" 0]
    get_next_waypoint_in_route_result
      [of "(add_route_waypoint (add_route_waypoint navigation_data_init 1 10 20 None)
             2 30 40 (Some ''B''))\<lparr>current_waypoint_id := 1\<rparr>" 0]
  by (simp add: route_inv_def add_route_waypoint_def navigation_data_init_def Let_def)

text \<open>C9: a second \<open>add_route_waypoint\<close> with the same id leaves the sequence as the
  first call left it (the id where it was, or appended by the first call), the id occurs
  once when the sequence had no duplicates, and the stored coordinates and name are those
  of the second call.\<close>

theorem add_route_waypoint_twice:
  "waypoint_sequence (add_route_waypoint (add_route_waypoint s w lat1 lon1 n1) w lat2 lon2 n2)
     = waypoint_sequence (add_route_waypoint s w lat1 lon1 n1)
   \<and> waypoint_sequence (add_route_waypoint s w lat1 lon1 n1)
     = (if w \<in> set (waypoint_sequence s) then waypoint_sequence s
        else waypoint_sequence s @ [w])
   \<and> (distinct (waypoint_sequence s) \<longrightarrow>
        count_list (waypoint_sequence
          (add_route_waypoint (add_route_waypoint s w lat1 lon1 n1) w lat2 lon2 n2)) w = 1)
   \<and> route_waypoints (add_route_waypoint (add_route_waypoint s w lat1 lon1 n1) w lat2 lon2 n2) w
     = Some \<lparr>wp_latitude = lat2, wp_longitude = lon2,
             wp_name = (case n2 of None \<Rightarrow> ''WP'' @ str_int w | Some n \<Rightarrow> n)\<rparr>"
  by (auto simp: add_route_waypoint_def Let_def distinct_count_list_one)

text \<open>C9 on the empty route: adding the id 7 twice.\<close>

theorem add_route_waypoint_twice_witness:
  "distinct (waypoint_sequence navigation_data_init)
   \<and> waypoint_sequence
       (add_route_waypoint (add_route_waypoint navigation_data_init 7 1 2 None) 7 3 4
          (Some ''mark'')) = [7]
   \<and> count_list (waypoint_sequence
       (add_route_waypoint (add_route_waypoint navigation_data_init 7 1 2 None) 7 3 4
          (Some ''mark''))) 7 = 1
   \<and> route_waypoints
       (add_route_waypoint (add_route_waypoint navigation_data_init 7 1 2 None) 7 3 4
          (Some ''mark'')) 7
       = Some \<lparr>wp_latitude = 3, wp_longitude = 4, wp_name = ''mark''\<rparr>"
  using add_route_waypoint_twice [of navigation_data_init 7 1 2 None 3 4 "Some ''mark''"]
  by (simp add: navigation_data_init_def)

section \<open>Properties of the averager\<close>












text \<open>C4 at a failing input: after an append to \<open>cog\<close> and two appends to the wind
  direction (350, then 10) one second apart, the shift over one minute is 0 in the code,
  which pairs the timestamps of all channels with the wind directions by position; the
  two wind samples are in the window and the specification gives 20.\<close>

theorem wind_shift_misaligned:
  "wind_shift_after 5
     [\<lparr>call_data_type = ''cog'', call_value = 90, call_timestamp = None,
        call_now0 = 0, call_now1 = 0\<rparr>,
      \<lparr>call_data_type = ''absolute_wind_direction'', call_value = 350, call_timestamp = None,
        call_now0 = 100000000, call_now1 = 100000000\<rparr>,
      \<lparr>call_data_type = ''absolute_wind_direction'', call_value = 10, call_timestamp = None,
        call_now0 = 101000000, call_now1 = 101000000\<rparr>] 101000000 1 = Inr 0
   \<and> window_shift
       (samples_of ''absolute_wind_direction''
         [\<lparr>call_data_type = ''cog'', call_value = 90, call_timestamp = None,
            call_now0 = 0, call_now1 = 0\<rparr>,
          \<lparr>call_data_type = ''absolute_wind_direction'', call_value = 350,
            call_timestamp = None, call_now0 = 100000000, call_now1 = 100000000\<rparr>,
          \<lparr>call_data_type = ''absolute_wind_direction'', call_value = 10,
            call_timestamp = None, call_now0 = 101000000, call_now1 = 101000000\<rparr>])
       101000000 1 = 20"
  by (simp add: wind_shift_after_def add_data_def cleanup_old_data_def data_averager_init_def
      channel_names_def timedelta_minutes_def Let_def get_wind_shift_def window_shift_def
      samples_of_def normalize_diff_def call_stamp_def)

text \<open>When the wind direction is the only channel appended, the positions agree and the
  shift is the one of the specification: 20 from 350 to 10, -20 from 10 to 350, and 0
  on a fresh averager.\<close>

lemma wind_shift_wind_only:
  "wind_shift_after 5
     [\<lparr>call_data_type = ''absolute_wind_direction'', call_value = 350, call_timestamp = None,
        call_now0 = 100000000, call_now1 = 100000000\<rparr>,
      \<lparr>call_data_type = ''absolute_wind_direction'', call_value = 10, call_timestamp = None,
        call_now0 = 101000000, call_now1 = 101000000\<rparr>] 101000000 1 = Inr 20
   \<and> wind_shift_after 5
     [\<lparr>call_data_type = ''absolute_wind_direction'', call_value = 10, call_timestamp = None,
        call_now0 = 100000000, call_now1 = 100000000\<rparr>,
      \<lparr>call_data_type = ''absolute_wind_direction'', call_value = 350, call_timestamp = None,
        call_now0 = 101000000, call_now1 = 101000000\<rparr>] 101000000 1 = Inr (- 20)
   \<and> wind_shift_after 5 [] 101000000 1 = Inr 0"
  by (simp add: wind_shift_after_def add_data_def cleanup_old_data_def data_averager_init_def
      channel_names_def timedelta_minutes_def Let_def get_wind_shift_def normalize_diff_def)

text \<open>C10 at a failing input: \<open>'timestamps'\<close> is a key of the dict, so an append to
  it changes the timestamp deque and the cleanup raises.\<close>

theorem add_data_timestamps_key:
  "add_data (data_averager_init 5) 0 0 ''timestamps'' 5 None
     = Inl (TypeError, (data_averager_init 5)\<lparr>timestamps := [Num 5, Stamp 0]\<rparr>)"
  by (simp add: add_data_def cleanup_old_data_def Let_def data_averager_init_def)

text \<open>For every name that is not a key of the dict the append does nothing and the
  average is 0.\<close>

lemma add_data_unknown_key:
  "channels s data_type = None \<Longrightarrow> data_type \<noteq> ''timestamps'' \<Longrightarrow>
   add_data s now0 now1 data_type v ts = Inr s \<and> get_average s data_type = Inr 0"
  by (simp add: add_data_def get_average_def)

section \<open>Properties of the decoder\<close>

lemma known_selectors:
  "pgn_parsers p \<noteq> None \<longleftrightarrow>
   p \<in> {129025, 129026, 130306, 129284, 129285, 129283, 129281, 129540, 130074}"
  by (simp add: pgn_parsers_def)

lemma parse_message_long:
  "8 \<le> length raw \<Longrightarrow>
   parse_message raw =
     (case (case pgn_parsers (record_pgn raw) of
              Some parser \<Rightarrow> parser (drop 8 raw)
            | None \<Rightarrow> Inr (Some (Unparsed (record_pgn raw) (hex raw)))) of
        Inl e \<Rightarrow> Some (ParseError e)
      | Inr r \<Rightarrow> r)"
  by (simp add: parse_message_def unpack_I_be_def bind_exn_def py_slice_def record_pgn_def Let_def
      split: option.split)

text \<open>C3, as the code has it: a record shorter than eight bytes gives \<open>None\<close>, and a
  record with a known selector whose payload is shorter than the minimum of that selector
  gives \<open>None\<close> as well. \<open>parse_message\<close> has no exceptional result.\<close>

theorem parse_message_short:
  "(length raw < 8 \<longrightarrow> parse_message raw = None)
   \<and> (8 \<le> length raw \<and> pgn_parsers (record_pgn raw) \<noteq> None
        \<and> length (drop 8 raw) < min_length (record_pgn raw)
      \<longrightarrow> parse_message raw = None)"
proof (intro conjI impI)
  assume "length raw < 8"
  then show "parse_message raw = None"
    by (simp add: parse_message_def)
next
  assume a: "8 \<le> length raw \<and> pgn_parsers (record_pgn raw) \<noteq> None
               \<and> length (drop 8 raw) < min_length (record_pgn raw)"
  then have k: "record_pgn raw \<in>
      {129025, 129026, 130306, 129284, 129285, 129283, 129281, 129540, 130074}"
    by (simp only: known_selectors)
  from a have long: "8 \<le> length raw" and short: "length (drop 8 raw) < min_length (record_pgn raw)"
    by simp_all
  from k short show "parse_message raw = None"
    unfolding parse_message_long [OF long]
    by (auto simp: pgn_parsers_def min_length_def parse_position_rapid_update_def
        parse_cog_sog_rapid_update_def parse_wind_data_def parse_navigation_data_def
        parse_route_waypoint_info_def parse_cross_track_error_def
        parse_navigation_route_info_def parse_waypoint_list_def
        parse_route_waypoint_database_def)
qed

text \<open>C3 on the empty record and on a wind record with five bytes of payload.\<close>

theorem parse_message_short_witness:
  "length ([] :: byte list) < 8 \<and> parse_message [] = None
   \<and> 8 \<le> length [0x01, 0xFD, 0x02, 0, 0, 0, 0, 0, 1, 2, 3, 4, 5 :: byte]
   \<and> pgn_parsers (record_pgn [0x01, 0xFD, 0x02, 0, 0, 0, 0, 0, 1, 2, 3, 4, 5]) \<noteq> None
   \<and> parse_message [0x01, 0xFD, 0x02, 0, 0, 0, 0, 0, 1, 2, 3, 4, 5] = None"
  using parse_message_short [of "[]"]
    parse_message_short [of "[0x01, 0xFD, 0x02, 0, 0, 0, 0, 0, 1, 2, 3, 4, 5]"]
  by (simp add: record_pgn_def pgn_of_def py_slice_def pgn_parsers_def min_length_def)

text \<open>C3 as stated fails: the result for a position record without payload is not
  distinct from the result for the empty record.\<close>

theorem short_record_and_short_payload_same_result:
  "record_pgn [0x01, 0xF8, 0x01, 0, 0, 0, 0, 0] = 129025
   \<and> parse_message [0x01, 0xF8, 0x01, 0, 0, 0, 0, 0] = parse_message []"
  by (simp add: parse_message_def record_pgn_def pgn_of_def unpack_I_be_def py_slice_def
      bind_exn_def pgn_parsers_def parse_position_rapid_update_def)

text \<open>C7, as the code has it: a record of at least eight bytes whose selector is not one
  of the nine known ones gives the dict with the selector and the hexadecimal rendering
  of the whole record, header included.\<close>

theorem parse_message_unknown_selector:
  assumes "8 \<le> length raw"
    and "record_pgn raw \<notin>
      {129025, 129026, 130306, 129284, 129285, 129283, 129281, 129540, 130074}"
  shows "parse_message raw = Some (Unparsed (record_pgn raw) (hex raw))"
proof -
  from assms(2) have "pgn_parsers (record_pgn raw) = None"
    using known_selectors [of "record_pgn raw"] by blast
  then show ?thesis
    by (simp add: parse_message_long [OF assms(1)])
qed

text \<open>C7 on a record with selector 0 and the payload \<open>ab\<close>.\<close>

theorem parse_message_unknown_selector_witness:
  "8 \<le> length [0, 0, 0, 0, 0, 0, 0, 0, 0xAB :: byte]
   \<and> parse_message [0, 0, 0, 0, 0, 0, 0, 0, 0xAB]
       = Some (Unparsed 0 ''0000000000000000ab'')"
  using parse_message_unknown_selector [of "[0, 0, 0, 0, 0, 0, 0, 0, 0xAB]"]
  by (simp add: record_pgn_def pgn_of_def py_slice_def hex_def hex_byte_def hex_digit_def)

text \<open>C7 as stated fails: the rendering is not that of the payload alone.\<close>

theorem unrecognized_raw_includes_header:
  "record_pgn [0, 0, 0, 0, 0, 0, 0, 0, 0xAB] = 0
   \<and> pgn_parsers 0 = None
   \<and> parse_message [0, 0, 0, 0, 0, 0, 0, 0, 0xAB]
       \<noteq> Some (Unparsed (record_pgn [0, 0, 0, 0, 0, 0, 0, 0, 0xAB])
                 (hex (drop 8 [0, 0, 0, 0, 0, 0, 0, 0, 0xAB])))"
  by (simp add: parse_message_def record_pgn_def pgn_of_def unpack_I_be_def py_slice_def
      bind_exn_def pgn_parsers_def hex_def hex_byte_def hex_digit_def)

lemma parse_route_waypoint_info_long:
  "length dat > 8 \<Longrightarrow>
   parse_route_waypoint_info dat
     = Inr (Some (WaypointInfo (le_nat (py_slice dat 0 2))
         (if find_null (drop 8 dat) > 0
          then decode_ascii_ignore (take (nat (find_null (drop 8 dat))) (drop 8 dat))
          else ''WP'' @ str_nat (le_nat (py_slice dat 0 2)))))"
  by (simp add: parse_route_waypoint_info_def unpack_H_def bind_exn_def py_slice_def Let_def)

text \<open>C6, as the code has it: for a payload longer than eight bytes, when the bytes from
  offset 8 start with a non-empty run without a zero byte followed by a zero byte, the
  name is that run with the bytes above 127 dropped; when there is no zero byte, or the
  first byte is zero, the name is \<open>WP<id>\<close>.\<close>

theorem waypoint_info_name:
  assumes "length dat > 8"
  shows "(drop 8 dat = nm @ 0 # rest \<and> 0 \<notin> set nm \<and> nm \<noteq> [] \<longrightarrow>
            parse_route_waypoint_info dat
              = Inr (Some (WaypointInfo (le_nat (py_slice dat 0 2)) (decode_ascii_ignore nm))))
       \<and> (0 \<notin> set (drop 8 dat) \<or> hd (drop 8 dat) = 0 \<longrightarrow>
            parse_route_waypoint_info dat
              = Inr (Some (WaypointInfo (le_nat (py_slice dat 0 2))
                             (''WP'' @ str_nat (le_nat (py_slice dat 0 2))))))"
proof (intro conjI impI)
  assume a: "drop 8 dat = nm @ 0 # rest \<and> 0 \<notin> set nm \<and> nm \<noteq> []"
  then have "find_null (drop 8 dat) = int (length nm)"
    by (simp add: find_null_def index_of_first)
  with a show "parse_route_waypoint_info dat
              = Inr (Some (WaypointInfo (le_nat (py_slice dat 0 2)) (decode_ascii_ignore nm)))"
    by (simp add: parse_route_waypoint_info_long [OF assms])
next
  assume a: "0 \<notin> set (drop 8 dat) \<or> hd (drop 8 dat) = 0"
  from assms obtain b bs where d: "drop 8 dat = b # bs"
    by (cases "drop 8 dat") auto
  from a have "find_null (drop 8 dat) \<le> 0"
  proof
    assume "0 \<notin> set (drop 8 dat)"
    then have "index_of (drop 8 dat) 0 = None"
      by (simp add: index_of_None_iff)
    then show ?thesis by (simp add: find_null_def)
  next
    assume "hd (drop 8 dat) = 0"
    with d show ?thesis by (simp add: find_null_def)
  qed
  then show "parse_route_waypoint_info dat
              = Inr (Some (WaypointInfo (le_nat (py_slice dat 0 2))
                             (''WP'' @ str_nat (le_nat (py_slice dat 0 2)))))"
    by (simp add: parse_route_waypoint_info_long [OF assms])
qed

text \<open>C6 on a terminated name with one byte that is not ASCII, and on a name without a
  terminator.\<close>

theorem waypoint_info_name_witness:
  "length [5, 0, 0, 0, 0, 0, 0, 0, 0x41, 0xC3, 0x42, 0, 0x43 :: byte] > 8
   \<and> parse_route_waypoint_info [5, 0, 0, 0, 0, 0, 0, 0, 0x41, 0xC3, 0x42, 0, 0x43]
       = Inr (Some (WaypointInfo 5 ''AB''))
   \<and> length [5, 0, 0, 0, 0, 0, 0, 0, 0x41, 0x42 :: byte] > 8
   \<and> parse_route_waypoint_info [5, 0, 0, 0, 0, 0, 0, 0, 0x41, 0x42]
       = Inr (Some (WaypointInfo 5 ''WP5''))"
  using waypoint_info_name [of "[5, 0, 0, 0, 0, 0, 0, 0, 0x41, 0xC3, 0x42, 0, 0x43]"
      "[0x41, 0xC3, 0x42]" "[0x43]"]
    waypoint_info_name [of "[5, 0, 0, 0, 0, 0, 0, 0, 0x41, 0x42]" "[]" "[]"]
  by (simp add: py_slice_def decode_ascii_ignore_def char_of_def bit_Suc_0_iff str_nat.simps
      digit_char_def)

text \<open>C6 as stated fails: the name \<open>AB\<close> without a terminator is not returned.\<close>

theorem unterminated_name_is_synthesized:
  "parse_route_waypoint_info [5, 0, 0, 0, 0, 0, 0, 0, 0x41, 0x42]
   \<noteq> Inr (Some (WaypointInfo 5
            (spec_waypoint_name [5, 0, 0, 0, 0, 0, 0, 0, 0x41, 0x42] 5)))"
  by (simp add: parse_route_waypoint_info_def unpack_H_def py_slice_def bind_exn_def
      find_null_def spec_waypoint_name_def decode_ascii_ignore_def Let_def
      char_of_def bit_Suc_0_iff)

lemma read_waypoint_full:
  "offset + 16 \<le> length dat \<Longrightarrow>
   read_waypoint dat offset = Inr (waypoint_record (py_slice dat offset (offset + 16)))"
  by (simp add: read_waypoint_def waypoint_record_def unpack_H_def unpack_i_def bind_exn_def
      py_slice_def signed32_def min_def take_drop add.commute)

lemma waypoint_loop_records:
  "waypoint_loop dat offset acc
     = acc @ map (\<lambda>k. waypoint_record (py_slice dat (offset + 16 * k) (offset + 16 * k + 16)))
               [0..<(length dat - offset) div 16]"
proof (induction dat offset acc rule: waypoint_loop.induct)
  case (1 dat offset waypoints)
  show ?case
  proof (cases "offset + 16 \<le> length dat")
    case False
    then have "(length dat - offset) div 16 = 0" by simp
    with False show ?thesis by (simp add: waypoint_loop.simps)
  next
    case True
    let ?w = "waypoint_record (py_slice dat offset (offset + 16))"
    let ?n = "(length dat - (offset + 16)) div 16"
    from True have rw: "read_waypoint dat offset = Inr ?w"
      by (rule read_waypoint_full)
    from True have n: "(length dat - offset) div 16 = Suc ?n"
      by (simp add: le_div_geq)
    have "waypoint_loop dat offset waypoints = waypoint_loop dat (offset + 16) (waypoints @ [?w])"
      using True rw by (subst waypoint_loop.simps) simp
    also have "\<dots> = (waypoints @ [?w])
        @ map (\<lambda>k. waypoint_record (py_slice dat (offset + 16 + 16 * k) (offset + 16 + 16 * k + 16)))
            [0..<?n]"
      using "1.IH" [OF True rw] .
    also have "\<dots> = waypoints
        @ map (\<lambda>k. waypoint_record (py_slice dat (offset + 16 * k) (offset + 16 * k + 16)))
            [0..<Suc ?n]"
      by (simp add: map_upt_Suc add.assoc del: upt_Suc)
    finally show ?thesis by (simp only: n)
  qed
qed

text \<open>C5: a payload of at least eight bytes decodes to one waypoint for each complete
  16-byte record from offset 8 on, in order, each with the id and the scaled latitude
  and longitude of its record; what remains after the last complete record is dropped.\<close>

theorem route_waypoint_database_records:
  assumes "8 \<le> length dat"
  shows "\<exists>database_id route_id nav_direction supplementary_route.
           parse_route_waypoint_database dat
             = Inr (Some (RouteWaypointDatabase database_id route_id nav_direction
                            supplementary_route
                            (map (\<lambda>k. waypoint_record (py_slice dat (8 + 16 * k) (8 + 16 * k + 16)))
                               [0..<(length dat - 8) div 16])))"
  using assms
  by (simp add: parse_route_waypoint_database_def unpack_H_def byte_at_def bind_exn_def
      py_slice_def waypoint_loop_records)

text \<open>C5 on a payload with two complete records and five more bytes: exactly two
  waypoints.\<close>

theorem route_waypoint_database_records_witness:
  "8 \<le> length (replicate 8 (0 :: byte)
                 @ [7, 0, 0x80, 0x69, 0x67, 0xFF, 0, 0, 0, 0, 0, 0, 0, 0, 0, 0]
                 @ [9, 1, 1, 0, 0, 0, 2, 0, 0, 0, 0, 0, 0, 0, 0, 0]
                 @ [1, 2, 3, 4, 5])
   \<and> (\<exists>database_id route_id nav_direction supplementary_route.
        parse_route_waypoint_database
          (replicate 8 0
             @ [7, 0, 0x80, 0x69, 0x67, 0xFF, 0, 0, 0, 0, 0, 0, 0, 0, 0, 0]
             @ [9, 1, 1, 0, 0, 0, 2, 0, 0, 0, 0, 0, 0, 0, 0, 0]
             @ [1, 2, 3, 4, 5])
          = Inr (Some (RouteWaypointDatabase database_id route_id nav_direction
                         supplementary_route
                         [\<lparr>dbw_waypoint_id = 7, dbw_latitude = - 1, dbw_longitude = 0,
                            dbw_name = ''WP7''\<rparr>,
                          \<lparr>dbw_waypoint_id = 265, dbw_latitude = 1 / 10000000,
                            dbw_longitude = 2 / 10000000, dbw_name = ''WP265''\<rparr>])))"
proof -
  have u: "[0..<2::nat] = [0, 1]"
    by (simp add: upt_rec)
  show ?thesis
    using route_waypoint_database_records
      [of "replicate 8 0
             @ [7, 0, 0x80, 0x69, 0x67, 0xFF, 0, 0, 0, 0, 0, 0, 0, 0, 0, 0]
             @ [9, 1, 1, 0, 0, 0, 2, 0, 0, 0, 0, 0, 0, 0, 0, 0]
             @ [1, 2, 3, 4, 5]"]
    by (simp add: waypoint_record_def py_slice_def signed32_def u str_nat.simps digit_char_def
        char_of_def bit_Suc_0_iff)
qed

end
